theory Spec2Isabelle
  imports Main "HOL-Library.AList" "HOL-Library.Sublist"
begin

section \<open>Python values used by \<open>zeroconf/_services/info.py\<close>\<close>

text \<open>
  A \<open>bytes\<close> object is a list of 8-bit characters. A Python \<open>str\<close> is modelled as a
  list of code points below 256 (Isabelle's \<open>char\<close>), which covers the ASCII names of
  DNS. Times (\<open>now\<close>, \<open>created\<close>, \<open>timeout\<close>) are milliseconds; the source passes them
  as floats and only adds and compares them, the model uses \<open>int\<close>.
\<close>

type_synonym bytes = "char list"

datatype py_error =
    TypeError
  | ValueError
  | AssertionError
  | BadTypeInNameException

text \<open>\<open>str.lower()\<close> on code points below 256: the upper-case letters of ASCII and
  of Latin-1 move up by 32, everything else stays.\<close>

definition lower_char :: "char \<Rightarrow> char" where
  "lower_char c =
     (let n = (of_char c :: nat)
      in if (65 \<le> n \<and> n \<le> 90) \<or> (192 \<le> n \<and> n \<le> 214) \<or> (216 \<le> n \<and> n \<le> 222)
         then char_of (n + 32) else c)"

definition lower :: "string \<Rightarrow> string" where
  "lower s = map lower_char s"

text \<open>\<open>str.encode('utf-8')\<close> on code points below 256: one byte below 128, two bytes
  from 128 on.\<close>

definition encode_utf8 :: "string \<Rightarrow> bytes" where
  "encode_utf8 s =
     concat (map (\<lambda>c. let n = (of_char c :: nat)
                       in if n < 128 then [c]
                          else [char_of (192 + n div 64), char_of (128 + n mod 64)]) s)"

subsection \<open>IP addresses\<close>

text \<open>\<open>ipaddress.ip_address\<close> on a \<open>bytes\<close> argument: four bytes are an
  \<open>IPv4Address\<close>, sixteen an \<open>IPv6Address\<close>, any other length raises \<open>ValueError\<close>
  (the result \<open>None\<close>). \<open>_cached_ip_addresses\<close> is the same function behind an
  \<open>lru_cache\<close>.\<close>

datatype ip_address = IPv4Address bytes | IPv6Address bytes

definition cached_ip_addresses :: "bytes \<Rightarrow> ip_address option" where
  "cached_ip_addresses address =
     (if length address = 4 then Some (IPv4Address address)
      else if length address = 16 then Some (IPv6Address address)
      else None)"

fun packed :: "ip_address \<Rightarrow> bytes" where
  "packed (IPv4Address b) = b"
| "packed (IPv6Address b) = b"

fun is_IPv4Address :: "ip_address \<Rightarrow> bool" where
  "is_IPv4Address (IPv4Address b) = True"
| "is_IPv4Address (IPv6Address b) = False"

fun is_IPv6Address :: "ip_address \<Rightarrow> bool" where
  "is_IPv6Address (IPv4Address b) = False"
| "is_IPv6Address (IPv6Address b) = True"

section \<open>DNS records and the cache (collaborators of the module)\<close>

text \<open>
  Modelled from the spec: the record classes of \<open>zeroconf._dns\<close> and the constants of
  \<open>zeroconf.const\<close> are imported by the module and are not part of it. The spec's
  supporting value types give their fields: every record has a name, a lower-cased key,
  a record type, a class, a TTL and a creation time; an address record adds the packed
  address bytes, a text record the raw bytes, a service record priority, weight, port
  and target host, a pointer record its alias, an absent-types (NSEC) record the next
  name and the list of record types. The record types and classes the module compares
  with are an enumeration here.
\<close>

datatype rr_type =
    TYPE_A | TYPE_AAAA | TYPE_PTR | TYPE_SRV | TYPE_TXT | TYPE_NSEC | TYPE_OTHER nat

datatype rr_class = CLASS_IN | CLASS_IN_UNIQUE

record dns_entry =
  entry_name :: string
  entry_key :: string
  entry_type :: rr_type
  entry_class :: rr_class
  entry_ttl :: int
  entry_created :: int

record service_data =
  srv_priority :: int
  srv_weight :: int
  srv_port :: int
  srv_server :: string
  srv_server_key :: string

datatype dns_record =
    DNSAddress dns_entry bytes
  | DNSPointer dns_entry string
  | DNSText dns_entry bytes
  | DNSService dns_entry service_data
  | DNSNsec dns_entry string "rr_type list"
  | DNSRecord dns_entry

fun entry :: "dns_record \<Rightarrow> dns_entry" where
  "entry (DNSAddress e a) = e"
| "entry (DNSPointer e a) = e"
| "entry (DNSText e t) = e"
| "entry (DNSService e d) = e"
| "entry (DNSNsec e n ts) = e"
| "entry (DNSRecord e) = e"

text \<open>Modelled from the spec: \<open>DNSRecord.is_expired\<close> is not part of the module. The
  spec's rule for the Record Reconciler: a record is expired when
  \<open>record.creation + ttl*1000 <= now\<close>.\<close>

definition is_expired :: "dns_entry \<Rightarrow> int \<Rightarrow> bool" where
  "is_expired e now = (entry_created e + entry_ttl e * 1000 \<le> now)"

text \<open>Modelled from the spec: the cache collaborator, \<open>zc.cache\<close>, with the two lookups
  the spec lists, \<open>getOne(name, type, class)\<close> and \<open>getAll(name, type, class)\<close>. The
  module reads \<open>get_all_by_details\<close> only for address records (it casts the result to
  a list of \<open>DNSAddress\<close>), so the lookup returns address records: an entry and its
  address bytes.\<close>

type_synonym address_record = "dns_entry \<times> bytes"

record zeroconf =
  get_by_details :: "string \<Rightarrow> rr_type \<Rightarrow> rr_class \<Rightarrow> dns_record option"
  get_all_by_details :: "string \<Rightarrow> rr_type \<Rightarrow> rr_class \<Rightarrow> address_record list"

section \<open>The state of a service: class \<open>ServiceInfo\<close>\<close>

text \<open>
  A properties dictionary is an insertion-ordered association list with one entry per
  key. A key is a \<open>str\<close> or a \<open>bytes\<close> object; a value is \<open>None\<close>, a \<open>bytes\<close> object, or
  any other object, which the module only reads through \<open>str(value)\<close> and which the
  model carries as that string.
\<close>

datatype prop_key = StrKey string | BytesKey bytes

datatype prop_value = NoneValue | BytesValue bytes | OtherValue string

type_synonym properties_dict = "(prop_key \<times> prop_value) list"

text \<open>The slots of \<open>ServiceInfo\<close>. \<open>text_bytes\<close> is \<open>self.text\<close>, \<open>name\<close> is
  \<open>self._name\<close>, \<open>properties\<close> is \<open>self._properties\<close>. \<open>self.text\<close> is optional in the
  model because \<open>_is_complete\<close> tests it against \<open>None\<close>; every assignment of the module
  stores a \<open>bytes\<close> object. The set of pending futures \<open>_new_records_futures\<close> belongs to
  the event loop and is left out.\<close>

record service_info =
  text_bytes :: "bytes option"
  type :: string
  name :: string
  key :: string
  ipv4_addresses :: "ip_address list"
  ipv6_addresses :: "ip_address list"
  port :: "int option"
  weight :: int
  priority :: int
  server :: "string option"
  server_key :: "string option"
  properties :: "properties_dict option"
  host_ttl :: int
  other_ttl :: int
  interface_index :: "int option"

text \<open>The setter of the \<open>name\<close> property.\<close>

definition name_setter :: "string \<Rightarrow> service_info \<Rightarrow> service_info" where
  "name_setter nm s = s\<lparr>name := nm, key := lower nm\<rparr>"

text \<open>The setter of the \<open>addresses\<close> property: both ledgers are cleared, then every
  address is parsed and appended to the ledger of its version; an address that does not
  parse raises \<open>TypeError\<close>.\<close>

fun addresses_loop :: "bytes list \<Rightarrow> service_info \<Rightarrow> py_error + service_info" where
  "addresses_loop [] s = Inr s"
| "addresses_loop (address # rest) s =
     (case cached_ip_addresses address of
        None \<Rightarrow> Inl TypeError
      | Some addr \<Rightarrow>
          if is_IPv4Address addr
          then addresses_loop rest (s\<lparr>ipv4_addresses := ipv4_addresses s @ [addr]\<rparr>)
          else addresses_loop rest (s\<lparr>ipv6_addresses := ipv6_addresses s @ [addr]\<rparr>))"

definition addresses_setter :: "bytes list \<Rightarrow> service_info \<Rightarrow> py_error + service_info" where
  "addresses_setter val s = addresses_loop val (s\<lparr>ipv4_addresses := [], ipv6_addresses := []\<rparr>)"

subsection \<open>The TXT codec: \<open>_set_properties\<close>, \<open>_set_text\<close>, \<open>_unpack_text_into_properties\<close>\<close>

text \<open>The first loop of \<open>_set_properties\<close> builds one payload per entry: the key (a
  \<open>str\<close> key UTF-8 encoded), and for a value that is not \<open>None\<close> an \<open>=\<close> and the value
  (a value that is not \<open>bytes\<close> stringified and UTF-8 encoded).\<close>

fun key_bytes :: "prop_key \<Rightarrow> bytes" where
  "key_bytes (StrKey k) = encode_utf8 k"
| "key_bytes (BytesKey k) = k"

fun item_of :: "prop_key \<times> prop_value \<Rightarrow> bytes" where
  "item_of (k, NoneValue) = key_bytes k"
| "item_of (k, BytesValue v) = key_bytes k @ ''='' @ v"
| "item_of (k, OtherValue v) = key_bytes k @ ''='' @ encode_utf8 v"

text \<open>The second loop prefixes every payload with its length as one byte;
  \<open>bytes((len(item),))\<close> raises \<open>ValueError\<close> for a length above 255. The only caller
  is the constructor, so a state on which the loop raised is never seen.\<close>

fun join_items :: "bytes list \<Rightarrow> bytes \<Rightarrow> py_error + bytes" where
  "join_items [] result = Inr result"
| "join_items (item # rest) result =
     (if 255 < length item then Inl ValueError
      else join_items rest (result @ [char_of (length item)] @ item))"

definition set_properties :: "properties_dict \<Rightarrow> service_info \<Rightarrow> py_error + service_info" where
  "set_properties props s =
     (case join_items (map item_of props) [] of
        Inl e \<Rightarrow> Inl e
      | Inr result \<Rightarrow> Inr (s\<lparr>properties := Some props, text_bytes := Some result\<rparr>))"

definition set_text :: "bytes \<Rightarrow> service_info \<Rightarrow> service_info" where
  "set_text t s =
     (if Some t = text_bytes s then s
      else s\<lparr>text_bytes := Some t, properties := None\<rparr>)"

text \<open>The \<open>while\<close> loop of \<open>_unpack_text_into_properties\<close>: a length byte, then the
  slice \<open>text[index : index + length]\<close>, which is shorter when the text ends early.\<close>

function unpack_loop :: "bytes \<Rightarrow> nat \<Rightarrow> bytes list \<Rightarrow> bytes list" where
  "unpack_loop text index pairs =
     (if index < length text
      then unpack_loop text (index + 1 + of_char (text ! index))
             (pairs @ [take (of_char (text ! index)) (drop (index + 1) text)])
      else pairs)"
  by pat_completeness auto
termination
  by (relation "measure (\<lambda>(text, index, pairs). length text - index)") auto

declare unpack_loop.simps [simp del]

text \<open>\<open>pair.partition(b'=')\<close>: the part before the first \<open>=\<close>, the separator and the
  part after it; without an \<open>=\<close> the pair itself and two empty parts.\<close>

definition partition_eq :: "bytes \<Rightarrow> bytes \<times> bytes \<times> bytes" where
  "partition_eq pair =
     (if CHR ''='' \<in> set pair
      then (takeWhile (\<lambda>c. c \<noteq> CHR ''='') pair, ''='',
            tl (dropWhile (\<lambda>c. c \<noteq> CHR ''='') pair))
      else (pair, [], []))"

text \<open>One step of the dictionary comprehension \<open>{key: value or None for ...}\<close>: a key
  already in the dictionary keeps its place and takes the new value.\<close>

definition pair_entry :: "bytes \<Rightarrow> prop_key \<times> prop_value" where
  "pair_entry pair =
     (case partition_eq pair of
        (k, sep, v) \<Rightarrow> (BytesKey k, if v = [] then NoneValue else BytesValue v))"

definition insert_pair :: "properties_dict \<Rightarrow> bytes \<Rightarrow> properties_dict" where
  "insert_pair d pair = AList.update (fst (pair_entry pair)) (snd (pair_entry pair)) d"

definition unpacked_properties :: "bytes option \<Rightarrow> properties_dict" where
  "unpacked_properties text =
     (case text of
        None \<Rightarrow> []
      | Some t \<Rightarrow>
          if t = [] then []
          else foldl insert_pair [] (rev (unpack_loop t 0 [])))"

definition unpack_text_into_properties :: "service_info \<Rightarrow> service_info" where
  "unpack_text_into_properties s = s\<lparr>properties := Some (unpacked_properties (text_bytes s))\<rparr>"

text \<open>The \<open>properties\<close> accessor: the cached dictionary, computed from the text on the
  first read after it was cleared.\<close>

definition properties_getter :: "service_info \<Rightarrow> service_info \<times> properties_dict" where
  "properties_getter s =
     (case properties s of
        None \<Rightarrow> (unpack_text_into_properties s, unpacked_properties (text_bytes s))
      | Some d \<Rightarrow> (s, d))"

subsection \<open>Reloading the address ledgers from the cache\<close>

definition get_address_records_from_cache_by_type ::
  "zeroconf \<Rightarrow> service_info \<Rightarrow> rr_type \<Rightarrow> address_record list" where
  "get_address_records_from_cache_by_type zc s t =
     (case server_key s of
        None \<Rightarrow> []
      | Some k \<Rightarrow> get_all_by_details zc k t CLASS_IN)"

text \<open>The loop of \<open>_get_ip_addresses_from_cache_lifo\<close>: expired records and records
  whose address does not parse are skipped.\<close>

fun collect_addresses :: "int \<Rightarrow> address_record list \<Rightarrow> ip_address list \<Rightarrow> ip_address list" where
  "collect_addresses now [] address_list = address_list"
| "collect_addresses now ((e, a) # rest) address_list =
     (if is_expired e now then collect_addresses now rest address_list
      else case cached_ip_addresses a of
             None \<Rightarrow> collect_addresses now rest address_list
           | Some ip_addr \<Rightarrow> collect_addresses now rest (address_list @ [ip_addr]))"

definition get_ip_addresses_from_cache_lifo ::
  "zeroconf \<Rightarrow> service_info \<Rightarrow> int \<Rightarrow> rr_type \<Rightarrow> ip_address list" where
  "get_ip_addresses_from_cache_lifo zc s now t =
     rev (collect_addresses now (get_address_records_from_cache_by_type zc s t) [])"

definition set_ipv6_addresses_from_cache :: "zeroconf \<Rightarrow> int \<Rightarrow> service_info \<Rightarrow> service_info" where
  "set_ipv6_addresses_from_cache zc now s =
     s\<lparr>ipv6_addresses := get_ip_addresses_from_cache_lifo zc s now TYPE_AAAA\<rparr>"

definition set_ipv4_addresses_from_cache :: "zeroconf \<Rightarrow> int \<Rightarrow> service_info \<Rightarrow> service_info" where
  "set_ipv4_addresses_from_cache zc now s =
     s\<lparr>ipv4_addresses := get_ip_addresses_from_cache_lifo zc s now TYPE_A\<rparr>"

subsection \<open>The Record Reconciler: \<open>_process_record_threadsafe\<close>\<close>

text \<open>The address branch, in the blocks of the source. Lines 438-439 reload the IPv4
  ledger when \<open>self._ipv4_addresses\<close> is true (non-empty); lines 451-452 reload the
  IPv6 ledger when \<open>not self._ipv6_addresses\<close> (empty).\<close>

definition refresh_ipv4 :: "zeroconf \<Rightarrow> int \<Rightarrow> service_info \<Rightarrow> service_info" where
  "refresh_ipv4 zc now s =
     (if ipv4_addresses s \<noteq> [] then set_ipv4_addresses_from_cache zc now s else s)"

definition refresh_ipv6 :: "zeroconf \<Rightarrow> int \<Rightarrow> service_info \<Rightarrow> service_info" where
  "refresh_ipv6 zc now s =
     (if ipv6_addresses s = [] then set_ipv6_addresses_from_cache zc now s else s)"

text \<open>Lines 441-449 and 454-462 are the same code on the two ledgers: an absent
  address is inserted at index 0 and the result is \<open>True\<close>; a present address that is
  not at index 0 is removed (\<open>list.remove\<close> takes the first occurrence) and inserted at
  index 0; the result is \<open>False\<close> for a present address.\<close>

definition insert_or_promote :: "ip_address \<Rightarrow> ip_address list \<Rightarrow> ip_address list \<times> bool" where
  "insert_or_promote ip_addr addresses =
     (if ip_addr \<notin> set addresses then (ip_addr # addresses, True)
      else if ip_addr \<noteq> hd addresses then (ip_addr # remove1 ip_addr addresses, False)
      else (addresses, False))"

definition process_address :: "zeroconf \<Rightarrow> ip_address \<Rightarrow> int \<Rightarrow> service_info \<Rightarrow> service_info \<times> bool" where
  "process_address zc ip_addr now s =
     (if is_IPv4Address ip_addr
      then (let s1 = refresh_ipv4 zc now s;
                r = insert_or_promote ip_addr (ipv4_addresses s1)
            in (s1\<lparr>ipv4_addresses := fst r\<rparr>, snd r))
      else (let s1 = refresh_ipv6 zc now s;
                r = insert_or_promote ip_addr (ipv6_addresses s1)
            in (s1\<lparr>ipv6_addresses := fst r\<rparr>, snd r)))"

text \<open>The service branch, lines 471-482.\<close>

definition process_service :: "zeroconf \<Rightarrow> dns_entry \<Rightarrow> service_data \<Rightarrow> int \<Rightarrow> service_info \<Rightarrow> service_info \<times> bool" where
  "process_service zc e d now s =
     (let old_server_key = server_key s;
          s1 = (name_setter (entry_name e) s)
                 \<lparr>server := Some (srv_server d),
                  server_key := Some (srv_server_key d),
                  port := Some (srv_port d),
                  weight := srv_weight d,
                  priority := srv_priority d\<rparr>
      in if old_server_key \<noteq> server_key s1
         then (set_ipv6_addresses_from_cache zc now (set_ipv4_addresses_from_cache zc now s1), True)
         else (s1, True))"

text \<open>The function tests the class of the record (\<open>type(record) is DNSAddress\<close>,
  \<open>is DNSText\<close>, \<open>is DNSService\<close>), so the model has one equation per class, each
  with the tests of the source that a record of that class can pass, in the source's
  order: expiry first; the address branch needs \<open>record.key == self.server_key\<close>; the
  text and service branches need \<open>record.key == self.key\<close> and the record type of
  their class. Every other path of the source returns \<open>False\<close> with the state
  untouched.\<close>

fun process_record_threadsafe :: "zeroconf \<Rightarrow> dns_record \<Rightarrow> int \<Rightarrow> service_info \<Rightarrow> service_info \<times> bool" where
  "process_record_threadsafe zc (DNSAddress e a) now s =
     (if is_expired e now then (s, False)
      else if Some (entry_key e) = server_key s
      then (case cached_ip_addresses a of
              None \<Rightarrow> (s, False)
            | Some ip_addr \<Rightarrow> process_address zc ip_addr now s)
      else (s, False))"
| "process_record_threadsafe zc (DNSText e t) now s =
     (if is_expired e now then (s, False)
      else if entry_key e \<noteq> key s then (s, False)
      else if entry_type e = TYPE_TXT then (set_text t s, True)
      else (s, False))"
| "process_record_threadsafe zc (DNSService e d) now s =
     (if is_expired e now then (s, False)
      else if entry_key e \<noteq> key s then (s, False)
      else if entry_type e = TYPE_SRV then process_service zc e d now s
      else (s, False))"
| "process_record_threadsafe zc record now s = (s, False)"

text \<open>\<open>_is_complete\<close>.\<close>

definition is_complete :: "service_info \<Rightarrow> bool" where
  "is_complete s =
     (text_bytes s \<noteq> None \<and> (ipv4_addresses s \<noteq> [] \<or> ipv6_addresses s \<noteq> []))"

text \<open>\<open>async_update_records\<close>: every update's new record is applied; the result
  says whether the pending futures are resolved. Modelled from the spec: a record-update
  event of \<open>zeroconf._updates\<close> holds the previous and the new record value.\<close>

record record_update =
  new :: dns_record
  old :: "dns_record option"

fun async_update_records ::
  "zeroconf \<Rightarrow> int \<Rightarrow> record_update list \<Rightarrow> service_info \<Rightarrow> service_info \<times> bool" where
  "async_update_records zc now [] s = (s, False)"
| "async_update_records zc now (u # rest) s =
     (let r = process_record_threadsafe zc (new u) now s;
          r' = async_update_records zc now rest (fst r)
      in (fst r', snd r \<or> snd r'))"

subsection \<open>The constructor\<close>

text \<open>\<open>__init__\<close>. \<open>service_type_name\<close> (called with \<open>strict=False\<close>) and
  \<open>_encode_address\<close> are helpers of \<open>zeroconf._utils\<close> that are not part of the module:
  they are parameters, and either may raise. The \<open>properties\<close> argument is a \<open>bytes\<close>
  object or a dictionary.\<close>

fun encode_all :: "(string \<Rightarrow> py_error + bytes) \<Rightarrow> string list \<Rightarrow> py_error + bytes list" where
  "encode_all encode_address [] = Inr []"
| "encode_all encode_address (a # rest) =
     (case encode_address a of
        Inl e \<Rightarrow> Inl e
      | Inr b \<Rightarrow> (case encode_all encode_address rest of
                   Inl e \<Rightarrow> Inl e
                 | Inr bs \<Rightarrow> Inr (b # bs)))"

definition init_properties :: "bytes + properties_dict \<Rightarrow> service_info \<Rightarrow> py_error + service_info" where
  "init_properties props s =
     (case props of
        Inl t \<Rightarrow> Inr (set_text t s)
      | Inr d \<Rightarrow> set_properties d s)"

definition init ::
  "(string \<Rightarrow> py_error + string) \<Rightarrow> (string \<Rightarrow> py_error + bytes) \<Rightarrow>
   string \<Rightarrow> string \<Rightarrow> int option \<Rightarrow> int \<Rightarrow> int \<Rightarrow> bytes + properties_dict \<Rightarrow>
   string option \<Rightarrow> int \<Rightarrow> int \<Rightarrow> bytes list option \<Rightarrow> string list option \<Rightarrow>
   int option \<Rightarrow> py_error + service_info" where
  "init service_type_name encode_address type_arg name_arg port_arg weight_arg priority_arg
        properties_arg server_arg host_ttl_arg other_ttl_arg addresses_arg
        parsed_addresses_arg interface_index_arg =
     (if addresses_arg \<noteq> None \<and> parsed_addresses_arg \<noteq> None then Inl TypeError
      else case service_type_name name_arg of
        Inl e \<Rightarrow> Inl e
      | Inr suffix_name \<Rightarrow>
          if \<not> suffix suffix_name type_arg then Inl BadTypeInNameException
          else
            let truthy_server = (server_arg \<noteq> None \<and> server_arg \<noteq> Some []);
                s0 = \<lparr>text_bytes = Some [],
                      type = type_arg,
                      name = name_arg,
                      key = lower name_arg,
                      ipv4_addresses = [],
                      ipv6_addresses = [],
                      port = port_arg,
                      weight = weight_arg,
                      priority = priority_arg,
                      server = (if truthy_server then server_arg else None),
                      server_key = (if truthy_server then map_option lower server_arg else None),
                      properties = None,
                      host_ttl = host_ttl_arg,
                      other_ttl = other_ttl_arg,
                      interface_index = interface_index_arg\<rparr>;
                with_addresses =
                  (case addresses_arg of
                     Some val \<Rightarrow> addresses_setter val s0
                   | None \<Rightarrow>
                       (case parsed_addresses_arg of
                          Some parsed \<Rightarrow>
                            (case encode_all encode_address parsed of
                               Inl e \<Rightarrow> Inl e
                             | Inr val \<Rightarrow> addresses_setter val s0)
                        | None \<Rightarrow> Inr s0))
            in case with_addresses of
                 Inl e \<Rightarrow> Inl e
               | Inr s1 \<Rightarrow> init_properties properties_arg s1)"

subsection \<open>The Cache Loader: \<open>load_from_cache\<close>\<close>

text \<open>\<open>clock\<close> is what \<open>current_time_millis()\<close> returns when \<open>now\<close> is not given (or
  is zero). A record found in the cache is a true value.\<close>

fun process_address_records ::
  "zeroconf \<Rightarrow> address_record list \<Rightarrow> int \<Rightarrow> service_info \<Rightarrow> service_info" where
  "process_address_records zc [] now s = s"
| "process_address_records zc ((e, a) # rest) now s =
     process_address_records zc rest now (fst (process_record_threadsafe zc (DNSAddress e a) now s))"

definition load_from_cache :: "int \<Rightarrow> zeroconf \<Rightarrow> int option \<Rightarrow> service_info \<Rightarrow> service_info \<times> bool" where
  "load_from_cache clock zc now_arg s =
     (let now = (case now_arg of None \<Rightarrow> clock | Some n \<Rightarrow> if n = 0 then clock else n);
          original_server_key = server_key s;
          s1 = (case get_by_details zc (name s) TYPE_SRV CLASS_IN of
                  None \<Rightarrow> s
                | Some cached_srv_record \<Rightarrow> fst (process_record_threadsafe zc cached_srv_record now s));
          s2 = (case get_by_details zc (name s1) TYPE_TXT CLASS_IN of
                  None \<Rightarrow> s1
                | Some cached_txt_record \<Rightarrow> fst (process_record_threadsafe zc cached_txt_record now s1));
          s3 = (if original_server_key = server_key s2
                then process_address_records zc
                       (get_address_records_from_cache_by_type zc s2 TYPE_A @
                        get_address_records_from_cache_by_type zc s2 TYPE_AAAA) now s2
                else s2)
      in (s3, is_complete s3))"

subsection \<open>The Record Emitter\<close>

text \<open>Modelled from the spec: \<open>IPVersion\<close> of \<open>zeroconf._utils.net\<close>, the address
  family requested from a snapshot (v4, v6 or all).\<close>

datatype ip_version = V4Only | V6Only | All

definition ip_addresses_by_version_value :: "service_info \<Rightarrow> ip_version \<Rightarrow> ip_address list" where
  "ip_addresses_by_version_value s version_value =
     (if version_value = All then ipv4_addresses s @ ipv6_addresses s
      else if version_value = V4Only then ipv4_addresses s
      else ipv6_addresses s)"

text \<open>Modelled from the spec: the constructors of the record classes of
  \<open>zeroconf._dns\<close>. The key of a record is its lower-cased name; the creation time is
  optional (\<open>createdAt?\<close>), and a record built without one is stamped with the current
  time, \<open>clock\<close>.\<close>

definition new_entry :: "int \<Rightarrow> string \<Rightarrow> rr_type \<Rightarrow> rr_class \<Rightarrow> int \<Rightarrow> int option \<Rightarrow> dns_entry" where
  "new_entry clock nm t c ttl created =
     \<lparr>entry_name = nm, entry_key = lower nm, entry_type = t, entry_class = c,
      entry_ttl = ttl,
      entry_created = (case created of None \<Rightarrow> clock | Some at \<Rightarrow> at)\<rparr>"

definition server_or_name :: "service_info \<Rightarrow> string" where
  "server_or_name s =
     (case server s of
        None \<Rightarrow> name s
      | Some srv \<Rightarrow> if srv = [] then name s else srv)"

definition ttl_or :: "int option \<Rightarrow> int \<Rightarrow> int" where
  "ttl_or override_ttl default_ttl =
     (case override_ttl of None \<Rightarrow> default_ttl | Some t \<Rightarrow> t)"

definition dns_addresses ::
  "int \<Rightarrow> service_info \<Rightarrow> int option \<Rightarrow> ip_version \<Rightarrow> int option \<Rightarrow> dns_record list" where
  "dns_addresses clock s override_ttl version created =
     map (\<lambda>ip_addr.
            DNSAddress
              (new_entry clock (server_or_name s)
                 (if is_IPv6Address ip_addr then TYPE_AAAA else TYPE_A)
                 CLASS_IN_UNIQUE (ttl_or override_ttl (host_ttl s)) created)
              (packed ip_addr))
         (ip_addresses_by_version_value s version)"

definition dns_pointer :: "int \<Rightarrow> service_info \<Rightarrow> int option \<Rightarrow> int option \<Rightarrow> dns_record" where
  "dns_pointer clock s override_ttl created =
     DNSPointer (new_entry clock (type s) TYPE_PTR CLASS_IN (ttl_or override_ttl (other_ttl s)) created)
       (name s)"

definition dns_text :: "int \<Rightarrow> service_info \<Rightarrow> int option \<Rightarrow> int option \<Rightarrow> dns_record" where
  "dns_text clock s override_ttl created =
     DNSText (new_entry clock (name s) TYPE_TXT CLASS_IN_UNIQUE (ttl_or override_ttl (other_ttl s)) created)
       (case text_bytes s of None \<Rightarrow> [] | Some t \<Rightarrow> t)"

text \<open>\<open>dns_nsec\<close> builds its record from \<open>self._name\<close>: the name and the next name of
  the record are both the instance name. The body has no statement that raises, so the
  result is always a record; the result type has an error side so that a failure of
  the emitter can be stated.\<close>

definition dns_nsec ::
  "int \<Rightarrow> service_info \<Rightarrow> rr_type list \<Rightarrow> int option \<Rightarrow> int option \<Rightarrow> py_error + dns_record" where
  "dns_nsec clock s missing_types override_ttl created =
     Inr (DNSNsec
            (new_entry clock (name s) TYPE_NSEC CLASS_IN_UNIQUE (ttl_or override_ttl (host_ttl s)) created)
            (name s) missing_types)"

text \<open>\<open>get_address_and_nsec_records\<close>: the loop discards from the missing types the
  type of every address record; the \<open>assert\<close> on \<open>self.server\<close> is reached only when
  a type is still missing.\<close>

fun discard_types :: "dns_record list \<Rightarrow> rr_type list \<Rightarrow> rr_type list" where
  "discard_types [] missing_types = missing_types"
| "discard_types (dns_address # rest) missing_types =
     discard_types rest (removeAll (entry_type (entry dns_address)) missing_types)"

definition get_address_and_nsec_records ::
  "int \<Rightarrow> service_info \<Rightarrow> int option \<Rightarrow> int option \<Rightarrow> py_error + dns_record set" where
  "get_address_and_nsec_records clock s override_ttl created =
     (let addresses = dns_addresses clock s override_ttl All created;
          missing_types = discard_types addresses [TYPE_A, TYPE_AAAA];
          records = set addresses
      in if missing_types \<noteq> []
         then (if server s = None then Inl AssertionError
               else case dns_nsec clock s missing_types override_ttl created of
                      Inl e \<Rightarrow> Inl e
                    | Inr nsec \<Rightarrow> Inr (insert nsec records))
         else Inr records)"

subsection \<open>Equality\<close>

text \<open>\<open>__eq__\<close> takes any object: a \<open>ServiceInfo\<close> (or a subclass instance, which has
  the same slots) or something else.\<close>

datatype py_object = ServiceInfoObject service_info | OtherObject string

fun eq_service_info :: "service_info \<Rightarrow> py_object \<Rightarrow> bool" where
  "eq_service_info self (ServiceInfoObject other) = (name other = name self)"
| "eq_service_info self (OtherObject other) = False"

subsection \<open>The Resolution Driver: \<open>generate_request_query\<close> and \<open>async_request\<close>\<close>

text \<open>Modelled from the spec: \<open>DNSQuestionType\<close> of \<open>zeroconf._dns\<close>, the two reply
  modes a question can request, unicast (QU) and multicast (QM). Both members are true
  values, as the members of a Python enumeration are.\<close>

datatype question_type = QU | QM

text \<open>Modelled from the spec: the outgoing question set of
  \<open>zeroconf._protocol.outgoing\<close> and its two methods. SRV and TXT follow the "ask
  unless any cached answer exists" policy, A and AAAA the "ask unless the cache covers
  this question" policy: a question is added when the cache has no record for it. The
  known answers that the collaborator adds to the packet otherwise are not read by the
  module and are left out.\<close>

record dns_question =
  question_name :: string
  question_rr_type :: rr_type
  question_class :: rr_class
  unicast :: bool

record dns_outgoing =
  questions :: "dns_question list"

definition add_question :: "string \<Rightarrow> rr_type \<Rightarrow> rr_class \<Rightarrow> dns_outgoing \<Rightarrow> dns_outgoing" where
  "add_question nm t c out =
     out\<lparr>questions := questions out @
            [\<lparr>question_name = nm, question_rr_type = t, question_class = c, unicast = False\<rparr>]\<rparr>"

definition add_question_or_one_cache ::
  "zeroconf \<Rightarrow> int \<Rightarrow> string \<Rightarrow> rr_type \<Rightarrow> rr_class \<Rightarrow> dns_outgoing \<Rightarrow> dns_outgoing" where
  "add_question_or_one_cache cache now nm t c out =
     (case get_by_details cache nm t c of
        None \<Rightarrow> add_question nm t c out
      | Some cached_entry \<Rightarrow> out)"

definition add_question_or_all_cache ::
  "zeroconf \<Rightarrow> int \<Rightarrow> string \<Rightarrow> rr_type \<Rightarrow> rr_class \<Rightarrow> dns_outgoing \<Rightarrow> dns_outgoing" where
  "add_question_or_all_cache cache now nm t c out =
     (if get_all_by_details cache nm t c = [] then add_question nm t c out else out)"

text \<open>\<open>generate_request_query\<close>: the four questions, then every question is marked
  unicast when the question type is QU.\<close>

definition generate_request_query ::
  "zeroconf \<Rightarrow> int \<Rightarrow> question_type option \<Rightarrow> service_info \<Rightarrow> dns_outgoing" where
  "generate_request_query zc now qtype s =
     (let out0 = \<lparr>questions = []\<rparr>;
          out1 = add_question_or_one_cache zc now (name s) TYPE_SRV CLASS_IN out0;
          out2 = add_question_or_one_cache zc now (name s) TYPE_TXT CLASS_IN out1;
          out3 = add_question_or_all_cache zc now (server_or_name s) TYPE_A CLASS_IN out2;
          out4 = add_question_or_all_cache zc now (server_or_name s) TYPE_AAAA CLASS_IN out3
      in if qtype = Some QU
         then out4\<lparr>questions := map (\<lambda>question. question\<lparr>unicast := True\<rparr>) (questions out4)\<rparr>
         else out4)"

text \<open>The argument of the call at lines 681-683,
  \<open>question_type or DNSQuestionType.QU if first_request else DNSQuestionType.QM\<close>.
  A conditional expression binds weaker than \<open>or\<close>, so Python reads it as
  \<open>(question_type or QU) if first_request else QM\<close>.\<close>

definition request_question_type :: "question_type option \<Rightarrow> bool \<Rightarrow> question_type" where
  "request_question_type qtype first_request =
     (if first_request
      then (case qtype of None \<Rightarrow> QU | Some q \<Rightarrow> q)
      else QM)"

text \<open>
  The \<open>while\<close> loop of \<open>async_request\<close>. What the loop cannot decide is given by a
  script with one entry per suspension at \<open>await self.async_wait(...)\<close>: the number that
  \<open>random.randint(20, 120)\<close> returned if a query was sent before the wait, the record
  updates the engine delivered during the wait (with the time of their delivery), the
  cache as it stands after the wait, and the time read after it. The loop state holds
  the local variables and the queries sent so far, each with the question type it was
  generated with. The result is \<open>None\<close> when the script ends before the loop returns.
  Registering and removing the listener touch only the engine and are left out.
\<close>

record wait_outcome =
  jitter :: int
  delivered_at :: int
  delivered :: "record_update list"
  cache_after :: zeroconf
  woken_at :: int

record loop_state =
  info :: service_info
  zc_now :: zeroconf
  now_var :: int
  first_request :: bool
  delay :: int
  next_var :: int
  sent :: "(question_type \<times> dns_outgoing) list"

definition async_wait :: "wait_outcome \<Rightarrow> loop_state \<Rightarrow> loop_state" where
  "async_wait w st =
     st\<lparr>info := fst (async_update_records (zc_now st) (delivered_at w) (delivered w) (info st)),
        zc_now := cache_after w,
        now_var := woken_at w\<rparr>"

fun request_loop ::
  "question_type option \<Rightarrow> int \<Rightarrow> wait_outcome list \<Rightarrow> loop_state \<Rightarrow> bool option \<times> loop_state" where
  "request_loop qtype last_var script st =
     (if is_complete (info st) then (Some True, st)
      else if last_var \<le> now_var st then (Some False, st)
      else if next_var st \<le> now_var st
      then (let qt = request_question_type qtype (first_request st);
                out = generate_request_query (zc_now st) (now_var st) (Some qt) (info st);
                st1 = st\<lparr>first_request := False\<rparr>
            in if questions out = []
               then (let r = load_from_cache (now_var st) (zc_now st) (Some (now_var st)) (info st)
                     in (Some (snd r), st1\<lparr>info := fst r\<rparr>))
               else (case script of
                       [] \<Rightarrow> (None, st1)
                     | w # rest \<Rightarrow>
                         request_loop qtype last_var rest
                           (async_wait w
                              (st1\<lparr>sent := sent st @ [(qt, out)],
                                   next_var := now_var st + delay st + jitter w,
                                   delay := delay st * 2\<rparr>))))
      else (case script of
              [] \<Rightarrow> (None, st)
            | w # rest \<Rightarrow> request_loop qtype last_var rest (async_wait w st)))"

declare request_loop.simps [simp del]

text \<open>\<open>async_request\<close>: \<open>start\<close> is the time read at entry, \<open>listener_time\<close> the
  constant \<open>_LISTENER_TIME\<close> of \<open>zeroconf.const\<close> (the initial delay). Waiting for
  the engine to start changes nothing the function reads and is left out; \<open>addr\<close> and
  \<open>port\<close> are only handed to \<open>zc.async_send\<close>.\<close>

definition async_request ::
  "int \<Rightarrow> zeroconf \<Rightarrow> int \<Rightarrow> int \<Rightarrow> question_type option \<Rightarrow> wait_outcome list \<Rightarrow>
   service_info \<Rightarrow> bool option \<times> loop_state" where
  "async_request listener_time zc start timeout qtype script s =
     (let r = load_from_cache start zc (Some start) s;
          st = \<lparr>info = fst r, zc_now = zc, now_var = start, first_request = True,
                delay = listener_time, next_var = start, sent = []\<rparr>
      in if snd r then (Some True, st)
         else request_loop qtype (start + timeout) script st)"

section \<open>Vocabulary of the statements and example values\<close>

text \<open>The ledger of the family of an address, and the state as it stands when the
  insertion is attempted (after lines 438-439 for an IPv4 address, after lines 451-452
  for an IPv6 address).\<close>

definition ledger_of :: "ip_address \<Rightarrow> service_info \<Rightarrow> ip_address list" where
  "ledger_of ip_addr s = (if is_IPv4Address ip_addr then ipv4_addresses s else ipv6_addresses s)"

definition refreshed :: "zeroconf \<Rightarrow> ip_address \<Rightarrow> int \<Rightarrow> service_info \<Rightarrow> service_info" where
  "refreshed zc ip_addr now s =
     (if is_IPv4Address ip_addr then refresh_ipv4 zc now s else refresh_ipv6 zc now s)"

text \<open>The service \<open>Printer._http._tcp.local.\<close> on \<open>host-a.local.\<close>, as the constructor
  builds it without addresses and with an empty text.\<close>

definition example_info :: service_info where
  "example_info =
     \<lparr>text_bytes = Some [], type = ''_http._tcp.local.'', name = ''Printer._http._tcp.local.'',
      key = ''printer._http._tcp.local.'', ipv4_addresses = [], ipv6_addresses = [],
      port = None, weight = 0, priority = 0, server = Some ''host-a.local.'',
      server_key = Some ''host-a.local.'', properties = None, host_ttl = 120,
      other_ttl = 4500, interface_index = None\<rparr>"

text \<open>A record header created at time 0 with a TTL of 120 seconds, and two caches: an
  empty one, and one that holds a single address record.\<close>

definition example_entry :: "string \<Rightarrow> string \<Rightarrow> rr_type \<Rightarrow> dns_entry" where
  "example_entry nm k t =
     \<lparr>entry_name = nm, entry_key = k, entry_type = t, entry_class = CLASS_IN,
      entry_ttl = 120, entry_created = 0\<rparr>"

definition empty_cache :: zeroconf where
  "empty_cache = \<lparr>get_by_details = (\<lambda>nm t c. None), get_all_by_details = (\<lambda>nm t c. [])\<rparr>"

definition cache_with :: "string \<Rightarrow> rr_type \<Rightarrow> bytes \<Rightarrow> zeroconf" where
  "cache_with k t a =
     \<lparr>get_by_details = (\<lambda>nm t' c. None),
      get_all_by_details =
        (\<lambda>nm t' c. if nm = k \<and> t' = t \<and> c = CLASS_IN then [(example_entry k k t, a)] else [])\<rparr>"

text \<open>The packed addresses 10.0.0.x and fe80::x.\<close>

definition addr4 :: "char \<Rightarrow> bytes" where
  "addr4 x = [CHR 0x0A, CHR 0x00, CHR 0x00, x]"

definition addr6 :: "char \<Rightarrow> bytes" where
  "addr6 x = [CHR 0xFE, CHR 0x80, CHR 0x00, CHR 0x00, CHR 0x00, CHR 0x00, CHR 0x00, CHR 0x00,
              CHR 0x00, CHR 0x00, CHR 0x00, CHR 0x00, CHR 0x00, CHR 0x00, CHR 0x00, x]"

text \<open>The wire format of a TXT record: every payload behind its length byte. An
  entry of a dictionary is well-formed when its key is a \<open>bytes\<close> object without \<open>=\<close>
  and its value is \<open>None\<close> or a non-empty \<open>bytes\<close> object.\<close>

definition frame :: "bytes \<Rightarrow> bytes" where
  "frame item = char_of (length item) # item"

definition wire_text :: "bytes list \<Rightarrow> bytes" where
  "wire_text items = concat (map frame items)"

fun well_formed_entry :: "prop_key \<times> prop_value \<Rightarrow> bool" where
  "well_formed_entry (BytesKey k, NoneValue) = (CHR ''='' \<notin> set k)"
| "well_formed_entry (BytesKey k, BytesValue v) = (CHR ''='' \<notin> set k \<and> v \<noteq> [])"
| "well_formed_entry (k, v) = False"

text \<open>A wait during which nothing is delivered, and the four questions asked for the
  example service while the cache is empty.\<close>

definition quiet_wait :: "int \<Rightarrow> int \<Rightarrow> wait_outcome" where
  "quiet_wait j t =
     \<lparr>jitter = j, delivered_at = t, delivered = [], cache_after = empty_cache, woken_at = t\<rparr>"

definition example_questions :: "bool \<Rightarrow> dns_question list" where
  "example_questions u =
     [\<lparr>question_name = ''Printer._http._tcp.local.'', question_rr_type = TYPE_SRV,
       question_class = CLASS_IN, unicast = u\<rparr>,
      \<lparr>question_name = ''Printer._http._tcp.local.'', question_rr_type = TYPE_TXT,
       question_class = CLASS_IN, unicast = u\<rparr>,
      \<lparr>question_name = ''host-a.local.'', question_rr_type = TYPE_A,
       question_class = CLASS_IN, unicast = u\<rparr>,
      \<lparr>question_name = ''host-a.local.'', question_rr_type = TYPE_AAAA,
       question_class = CLASS_IN, unicast = u\<rparr>]"

section \<open>The Record Reconciler\<close>

subsection \<open>Text records\<close>

text \<open>
  C1, as the code has it. A non-expired text record whose key is the state's key is
  always reported as a change: the result is \<open>True\<close> whether or not the bytes differ.
  When the bytes are those of \<open>self.text\<close> the state is left as it is; otherwise the
  text is replaced and the properties cache is cleared.
\<close>

theorem txt_record_applied:
  assumes "\<not> is_expired e now" and "entry_type e = TYPE_TXT" and "entry_key e = key s"
  shows "process_record_threadsafe zc (DNSText e t) now s =
           (if text_bytes s = Some t then s else s\<lparr>text_bytes := Some t, properties := None\<rparr>, True)"
  using assms by (auto simp: set_text_def)

theorem txt_record_applied_witness:
  "process_record_threadsafe empty_cache
     (DNSText (example_entry ''Printer._http._tcp.local.'' ''printer._http._tcp.local.'' TYPE_TXT) ''a=1'')
     1000 example_info = (example_info\<lparr>text_bytes := Some ''a=1'', properties := None\<rparr>, True)"
proof -
  let ?e = "example_entry ''Printer._http._tcp.local.'' ''printer._http._tcp.local.'' TYPE_TXT"
  have h1: "\<not> is_expired ?e 1000"
    by (simp add: example_entry_def is_expired_def)
  have h2: "entry_type ?e = TYPE_TXT"
    by (simp add: example_entry_def)
  have h3: "entry_key ?e = key example_info"
    by (simp add: example_entry_def example_info_def)
  show ?thesis
    using txt_record_applied [OF h1 h2 h3, of empty_cache "''a=1''"]
    by (simp add: example_info_def)
qed

text \<open>C1 as stated fails: a text record whose bytes are byte-identical to the current
  text (here the empty text) leaves the state unchanged and still returns \<open>True\<close>.\<close>

theorem identical_txt_reports_change:
  "\<not> is_expired (example_entry ''Printer._http._tcp.local.'' ''printer._http._tcp.local.'' TYPE_TXT) 1000
   \<and> entry_key (example_entry ''Printer._http._tcp.local.'' ''printer._http._tcp.local.'' TYPE_TXT) = key example_info
   \<and> text_bytes example_info = Some []
   \<and> process_record_threadsafe empty_cache
        (DNSText (example_entry ''Printer._http._tcp.local.'' ''printer._http._tcp.local.'' TYPE_TXT) [])
        1000 example_info = (example_info, True)"
  by (simp add: example_entry_def example_info_def is_expired_def set_text_def)

subsection \<open>Address records\<close>

lemma remove1_present:
  "ip \<in> set xs \<Longrightarrow> Suc (length (remove1 ip xs)) = length xs"
  by (induction xs) auto

lemma set_remove1_present:
  "ip \<in> set xs \<Longrightarrow> insert ip (set (remove1 ip xs)) = set xs"
  by (induction xs) auto

lemma insert_or_promote_absent:
  "ip \<notin> set xs \<Longrightarrow> insert_or_promote ip xs = (ip # xs, True)"
  by (simp add: insert_or_promote_def)

lemma insert_or_promote_present:
  assumes "ip \<in> set xs"
  shows "snd (insert_or_promote ip xs) = False"
    and "length (fst (insert_or_promote ip xs)) = length xs"
    and "hd (fst (insert_or_promote ip xs)) = ip"
    and "set (fst (insert_or_promote ip xs)) = set xs"
proof -
  show "snd (insert_or_promote ip xs) = False"
    using assms by (simp add: insert_or_promote_def)
  show "length (fst (insert_or_promote ip xs)) = length xs"
    using assms by (simp add: insert_or_promote_def remove1_present)
  show "hd (fst (insert_or_promote ip xs)) = ip"
    using assms by (simp add: insert_or_promote_def)
  show "set (fst (insert_or_promote ip xs)) = set xs"
    using assms by (simp add: insert_or_promote_def set_remove1_present)
qed

lemma insert_or_promote_distinct:
  "distinct xs \<Longrightarrow> distinct (fst (insert_or_promote ip xs))"
  by (auto simp: insert_or_promote_def)

lemma insert_or_promote_nonempty:
  "fst (insert_or_promote ip xs) \<noteq> []"
  by (auto simp: insert_or_promote_def)

lemma process_address_ledger:
  "ledger_of ip (fst (process_address zc ip now s)) =
     fst (insert_or_promote ip (ledger_of ip (refreshed zc ip now s)))"
  "snd (process_address zc ip now s) = snd (insert_or_promote ip (ledger_of ip (refreshed zc ip now s)))"
  by (simp_all add: process_address_def ledger_of_def refreshed_def Let_def)

lemma process_address_text:
  "text_bytes (fst (process_address zc ip now s)) = text_bytes s"
  by (simp add: process_address_def Let_def refresh_ipv4_def refresh_ipv6_def
      set_ipv4_addresses_from_cache_def set_ipv6_addresses_from_cache_def)

lemma address_record_applied:
  assumes "\<not> is_expired e now" and "Some (entry_key e) = server_key s"
    and "cached_ip_addresses a = Some ip"
  shows "process_record_threadsafe zc (DNSAddress e a) now s = process_address zc ip now s"
  by (simp add: assms(1,3) assms(2)[symmetric])

text \<open>
  C3, evaluated on the code. The IPv4 block reloads the ledger from the cache when the
  ledger is non-empty (\<open>if self._ipv4_addresses:\<close>), the IPv6 block when it is empty
  (\<open>if not self._ipv6_addresses:\<close>). With the cache holding 10.0.0.1 for the host and
  an empty IPv4 ledger, applying 10.0.0.2 leaves the ledger at 10.0.0.2 alone: the
  cached address is not loaded. The same run on the IPv6 side loads the cached
  address first. A non-empty IPv4 ledger is replaced by the cache's content (here
  nothing) before the insertion, so 10.0.0.3, learned earlier, is lost.
\<close>

theorem ipv4_empty_ledger_not_refreshed:
  "process_record_threadsafe (cache_with ''host-a.local.'' TYPE_A (addr4 (CHR 0x01)))
     (DNSAddress (example_entry ''host-a.local.'' ''host-a.local.'' TYPE_A) (addr4 (CHR 0x02)))
     1000 example_info
   = (example_info\<lparr>ipv4_addresses := [IPv4Address (addr4 (CHR 0x02))]\<rparr>, True)
   \<and> process_record_threadsafe (cache_with ''host-a.local.'' TYPE_AAAA (addr6 (CHR 0x01)))
     (DNSAddress (example_entry ''host-a.local.'' ''host-a.local.'' TYPE_AAAA) (addr6 (CHR 0x02)))
     1000 example_info
   = (example_info\<lparr>ipv6_addresses := [IPv6Address (addr6 (CHR 0x02)), IPv6Address (addr6 (CHR 0x01))]\<rparr>, True)
   \<and> process_record_threadsafe empty_cache
     (DNSAddress (example_entry ''host-a.local.'' ''host-a.local.'' TYPE_A) (addr4 (CHR 0x02)))
     1000 (example_info\<lparr>ipv4_addresses := [IPv4Address (addr4 (CHR 0x03))]\<rparr>)
   = (example_info\<lparr>ipv4_addresses := [IPv4Address (addr4 (CHR 0x02))]\<rparr>, True)"
  by (simp add: cache_with_def empty_cache_def example_entry_def example_info_def is_expired_def
      addr4_def addr6_def cached_ip_addresses_def process_address_def refresh_ipv4_def
      refresh_ipv6_def set_ipv4_addresses_from_cache_def set_ipv6_addresses_from_cache_def
      get_ip_addresses_from_cache_lifo_def get_address_records_from_cache_by_type_def
      insert_or_promote_def)

text \<open>
  C7, as the code has it. For a non-expired address record whose key is the server
  key and whose address parses, take the ledger of the address's family as it stands
  when the insertion is attempted. An address absent from it is put at the head, the
  ledger grows by one and the result is \<open>True\<close>. An address present in it ends up at
  the head, the ledger keeps its length and its elements and the result is \<open>False\<close>.
  A ledger without duplicates stays without duplicates.
\<close>

theorem insert_or_promote_at_insertion:
  assumes "\<not> is_expired e now" and "Some (entry_key e) = server_key s"
    and "cached_ip_addresses a = Some ip"
  shows "(ip \<notin> set (ledger_of ip (refreshed zc ip now s)) \<longrightarrow>
            ledger_of ip (fst (process_record_threadsafe zc (DNSAddress e a) now s)) =
              ip # ledger_of ip (refreshed zc ip now s)
          \<and> length (ledger_of ip (fst (process_record_threadsafe zc (DNSAddress e a) now s))) =
              length (ledger_of ip (refreshed zc ip now s)) + 1
          \<and> snd (process_record_threadsafe zc (DNSAddress e a) now s))
       \<and> (ip \<in> set (ledger_of ip (refreshed zc ip now s)) \<longrightarrow>
            length (ledger_of ip (fst (process_record_threadsafe zc (DNSAddress e a) now s))) =
              length (ledger_of ip (refreshed zc ip now s))
          \<and> hd (ledger_of ip (fst (process_record_threadsafe zc (DNSAddress e a) now s))) = ip
          \<and> set (ledger_of ip (fst (process_record_threadsafe zc (DNSAddress e a) now s))) =
              set (ledger_of ip (refreshed zc ip now s))
          \<and> \<not> snd (process_record_threadsafe zc (DNSAddress e a) now s))
       \<and> (distinct (ledger_of ip (refreshed zc ip now s)) \<longrightarrow>
            distinct (ledger_of ip (fst (process_record_threadsafe zc (DNSAddress e a) now s))))"
proof -
  define L where "L = ledger_of ip (refreshed zc ip now s)"
  define r where "r = process_record_threadsafe zc (DNSAddress e a) now s"
  have p: "r = process_address zc ip now s"
    unfolding r_def using assms by (rule address_record_applied)
  have l: "ledger_of ip (fst r) = fst (insert_or_promote ip L)"
    unfolding p L_def by (rule process_address_ledger(1))
  have c: "snd r = snd (insert_or_promote ip L)"
    unfolding p L_def by (rule process_address_ledger(2))
  have absent: "ip \<notin> set L \<longrightarrow>
      ledger_of ip (fst r) = ip # L \<and> length (ledger_of ip (fst r)) = length L + 1 \<and> snd r"
    by (simp add: l c insert_or_promote_absent)
  have present: "ip \<in> set L \<longrightarrow>
      length (ledger_of ip (fst r)) = length L \<and> hd (ledger_of ip (fst r)) = ip \<and>
      set (ledger_of ip (fst r)) = set L \<and> \<not> snd r"
    by (simp add: l c insert_or_promote_present)
  have dist: "distinct L \<longrightarrow> distinct (ledger_of ip (fst r))"
    by (simp add: l insert_or_promote_distinct)
  from absent present dist show ?thesis
    unfolding L_def r_def by blast
qed

text \<open>An instance of C7: fe80::2 is second in the IPv6 ledger and is promoted.\<close>

theorem insert_or_promote_at_insertion_witness:
  "length (ledger_of (IPv6Address (addr6 (CHR 0x02)))
     (fst (process_record_threadsafe empty_cache
        (DNSAddress (example_entry ''host-a.local.'' ''host-a.local.'' TYPE_AAAA) (addr6 (CHR 0x02)))
        1000
        (example_info\<lparr>ipv6_addresses :=
           [IPv6Address (addr6 (CHR 0x01)), IPv6Address (addr6 (CHR 0x02))]\<rparr>)))) = 2
   \<and> hd (ledger_of (IPv6Address (addr6 (CHR 0x02)))
     (fst (process_record_threadsafe empty_cache
        (DNSAddress (example_entry ''host-a.local.'' ''host-a.local.'' TYPE_AAAA) (addr6 (CHR 0x02)))
        1000
        (example_info\<lparr>ipv6_addresses :=
           [IPv6Address (addr6 (CHR 0x01)), IPv6Address (addr6 (CHR 0x02))]\<rparr>)))) =
       IPv6Address (addr6 (CHR 0x02))
   \<and> \<not> snd (process_record_threadsafe empty_cache
        (DNSAddress (example_entry ''host-a.local.'' ''host-a.local.'' TYPE_AAAA) (addr6 (CHR 0x02)))
        1000
        (example_info\<lparr>ipv6_addresses :=
           [IPv6Address (addr6 (CHR 0x01)), IPv6Address (addr6 (CHR 0x02))]\<rparr>))"
proof -
  let ?e = "example_entry ''host-a.local.'' ''host-a.local.'' TYPE_AAAA"
  let ?s = "example_info\<lparr>ipv6_addresses :=
              [IPv6Address (addr6 (CHR 0x01)), IPv6Address (addr6 (CHR 0x02))]\<rparr>"
  let ?ip = "IPv6Address (addr6 (CHR 0x02))"
  have h1: "\<not> is_expired ?e 1000"
    by (simp add: example_entry_def is_expired_def)
  have h2: "Some (entry_key ?e) = server_key ?s"
    by (simp add: example_entry_def example_info_def)
  have h3: "cached_ip_addresses (addr6 (CHR 0x02)) = Some ?ip"
    by (simp add: cached_ip_addresses_def addr6_def)
  have L: "ledger_of ?ip (refreshed empty_cache ?ip 1000 ?s) =
             [IPv6Address (addr6 (CHR 0x01)), ?ip]"
    by (simp add: ledger_of_def refreshed_def refresh_ipv6_def example_info_def)
  show ?thesis
    using insert_or_promote_at_insertion [OF h1 h2 h3, of empty_cache]
    unfolding L by simp
qed

text \<open>
  C7 as stated, about the ledger before the call, fails: the IPv6 ledger is empty and
  the cache holds fe80::1. Applying fe80::2 makes the ledger grow by two; applying
  fe80::1, which is absent from the ledger, returns \<open>False\<close>.
\<close>

theorem refresh_changes_ledger_before_insertion:
  "ipv6_addresses example_info = []
   \<and> process_record_threadsafe (cache_with ''host-a.local.'' TYPE_AAAA (addr6 (CHR 0x01)))
     (DNSAddress (example_entry ''host-a.local.'' ''host-a.local.'' TYPE_AAAA) (addr6 (CHR 0x02)))
     1000 example_info
   = (example_info\<lparr>ipv6_addresses := [IPv6Address (addr6 (CHR 0x02)), IPv6Address (addr6 (CHR 0x01))]\<rparr>, True)
   \<and> process_record_threadsafe (cache_with ''host-a.local.'' TYPE_AAAA (addr6 (CHR 0x01)))
     (DNSAddress (example_entry ''host-a.local.'' ''host-a.local.'' TYPE_AAAA) (addr6 (CHR 0x01)))
     1000 example_info
   = (example_info\<lparr>ipv6_addresses := [IPv6Address (addr6 (CHR 0x01))]\<rparr>, False)"
  by (simp add: cache_with_def example_entry_def example_info_def is_expired_def
      addr6_def cached_ip_addresses_def process_address_def
      refresh_ipv6_def set_ipv6_addresses_from_cache_def
      get_ip_addresses_from_cache_lifo_def get_address_records_from_cache_by_type_def
      insert_or_promote_def)

subsection \<open>Service records\<close>

text \<open>
  C6. A non-expired service record whose key is the state's key is adopted: name (and
  with it the key), server, server key (the record's), port, weight and priority. When
  the server key changed, both ledgers become what the cache holds for the new server
  key, whatever they held before; otherwise they are kept. The result is always
  \<open>True\<close>.
\<close>

theorem srv_record_applied:
  assumes "\<not> is_expired e now" and "entry_type e = TYPE_SRV" and "entry_key e = key s"
  shows "process_record_threadsafe zc (DNSService e d) now s =
     (let adopted = s\<lparr>name := entry_name e, key := lower (entry_name e),
                       server := Some (srv_server d), server_key := Some (srv_server_key d),
                       port := Some (srv_port d), weight := srv_weight d,
                       priority := srv_priority d\<rparr>
      in if server_key s \<noteq> Some (srv_server_key d)
         then adopted\<lparr>ipv4_addresses :=
                         rev (collect_addresses now
                                (get_all_by_details zc (srv_server_key d) TYPE_A CLASS_IN) []),
                       ipv6_addresses :=
                         rev (collect_addresses now
                                (get_all_by_details zc (srv_server_key d) TYPE_AAAA CLASS_IN) [])\<rparr>
         else adopted,
      True)"
  using assms
  by (simp add: process_service_def name_setter_def Let_def set_ipv4_addresses_from_cache_def
      set_ipv6_addresses_from_cache_def get_ip_addresses_from_cache_lifo_def
      get_address_records_from_cache_by_type_def)

text \<open>An instance of C6: the host changes from host-a to host-b; 10.0.0.3, learned
  for host-a, is dropped and the ledger holds the cached address of host-b.\<close>

theorem srv_record_applied_witness:
  "process_record_threadsafe (cache_with ''host-b.local.'' TYPE_A (addr4 (CHR 0x01)))
     (DNSService (example_entry ''Printer._http._tcp.local.'' ''printer._http._tcp.local.'' TYPE_SRV)
        \<lparr>srv_priority = 0, srv_weight = 0, srv_port = 631,
         srv_server = ''host-b.local.'', srv_server_key = ''host-b.local.''\<rparr>)
     1000 (example_info\<lparr>ipv4_addresses := [IPv4Address (addr4 (CHR 0x03))]\<rparr>)
   = (example_info\<lparr>server := Some ''host-b.local.'', server_key := Some ''host-b.local.'',
                    port := Some 631, ipv4_addresses := [IPv4Address (addr4 (CHR 0x01))]\<rparr>, True)"
proof -
  let ?e = "example_entry ''Printer._http._tcp.local.'' ''printer._http._tcp.local.'' TYPE_SRV"
  let ?s = "example_info\<lparr>ipv4_addresses := [IPv4Address (addr4 (CHR 0x03))]\<rparr>"
  have h1: "\<not> is_expired ?e 1000"
    by (simp add: example_entry_def is_expired_def)
  have h2: "entry_type ?e = TYPE_SRV"
    by (simp add: example_entry_def)
  have h3: "entry_key ?e = key ?s"
    by (simp add: example_entry_def example_info_def)
  have low: "lower ''Printer._http._tcp.local.'' = ''printer._http._tcp.local.''"
    by code_simp
  show ?thesis
    using srv_record_applied [OF h1 h2 h3, of "cache_with ''host-b.local.'' TYPE_A (addr4 (CHR 0x01))"
        "\<lparr>srv_priority = 0, srv_weight = 0, srv_port = 631,
          srv_server = ''host-b.local.'', srv_server_key = ''host-b.local.''\<rparr>"]
    by (simp add: example_info_def example_entry_def cache_with_def low is_expired_def
        cached_ip_addresses_def addr4_def)
qed

section \<open>Completeness\<close>

lemma addresses_loop_text:
  "addresses_loop xs s = Inr s' \<Longrightarrow> text_bytes s' = text_bytes s"
  by (induction xs arbitrary: s) (auto split: option.splits if_splits)

lemma init_properties_keeps:
  assumes "init_properties props s = Inr s'"
  shows "ipv4_addresses s' = ipv4_addresses s" and "ipv6_addresses s' = ipv6_addresses s"
    and "text_bytes s \<noteq> None \<Longrightarrow> text_bytes s' \<noteq> None"
  using assms
  by (auto simp: init_properties_def set_text_def set_properties_def split: sum.splits if_splits)

lemma addresses_setter_text:
  "addresses_setter val s = Inr s' \<Longrightarrow> text_bytes s' = text_bytes s"
  by (auto simp: addresses_setter_def dest!: addresses_loop_text)

lemma init_text:
  assumes "init stn enc ty nm po we pr props srv ht ot addrs parsed ii = Inr s0"
  shows "text_bytes s0 \<noteq> None"
  using assms
  by (auto simp: init_def Let_def split: sum.splits if_splits option.splits
      dest!: addresses_setter_text init_properties_keeps(3))

lemma init_properties_ledgers:
  "init_properties props s = Inr s' \<Longrightarrow>
     ipv4_addresses s' = ipv4_addresses s \<and> ipv6_addresses s' = ipv6_addresses s"
  by (auto simp: init_properties_def set_text_def set_properties_def split: sum.splits if_splits)

lemma init_no_addresses:
  assumes "init stn enc ty nm po we pr props srv ht ot addrs parsed ii = Inr s0"
    and "addrs = None \<or> addrs = Some []" and "parsed = None \<or> parsed = Some []"
  shows "ipv4_addresses s0 = [] \<and> ipv6_addresses s0 = []"
  using assms
  by (auto simp: init_def Let_def addresses_setter_def split: sum.splits if_splits option.splits
      dest: init_properties_ledgers)


lemma address_applied_complete:
  assumes "text_bytes s \<noteq> None" and "\<not> is_expired e now"
    and "Some (entry_key e) = server_key s" and "cached_ip_addresses a = Some ip"
  shows "is_complete (fst (process_record_threadsafe zc (DNSAddress e a) now s))"
proof -
  let ?s' = "fst (process_address zc ip now s)"
  have p: "process_record_threadsafe zc (DNSAddress e a) now s = process_address zc ip now s"
    using assms(2-4) by (rule address_record_applied)
  have "ledger_of ip ?s' \<noteq> []"
    by (simp add: process_address_ledger(1) insert_or_promote_nonempty)
  then have "ipv4_addresses ?s' \<noteq> [] \<or> ipv6_addresses ?s' \<noteq> []"
    by (auto simp: ledger_of_def split: if_splits)
  moreover have "text_bytes ?s' \<noteq> None"
    using assms(1) by (simp add: process_address_text)
  ultimately show ?thesis
    unfolding p is_complete_def by blast
qed

text \<open>
  C8. \<open>_is_complete\<close> holds exactly when the text is not \<open>None\<close> and one of the two
  ledgers is non-empty. A constructed state always has a text; constructed without
  addresses it is not complete. A state with a text is complete after a non-expired
  address record for its server key, with an address that parses, was applied.
\<close>

theorem completeness:
  "(is_complete s \<longleftrightarrow>
      text_bytes s \<noteq> None \<and> (ipv4_addresses s \<noteq> [] \<or> ipv6_addresses s \<noteq> []))
   \<and> (init stn enc ty nm po we pr props srv ht ot addrs parsed ii = Inr s0 \<longrightarrow>
        text_bytes s0 \<noteq> None)
   \<and> (init stn enc ty nm po we pr props srv ht ot addrs parsed ii = Inr s0
        \<and> (addrs = None \<or> addrs = Some []) \<and> (parsed = None \<or> parsed = Some []) \<longrightarrow>
        \<not> is_complete s0)
   \<and> (text_bytes s \<noteq> None \<and> \<not> is_expired e now \<and> Some (entry_key e) = server_key s
        \<and> cached_ip_addresses a = Some ip \<longrightarrow>
        is_complete (fst (process_record_threadsafe zc (DNSAddress e a) now s)))"
proof -
  have a: "is_complete s \<longleftrightarrow>
      text_bytes s \<noteq> None \<and> (ipv4_addresses s \<noteq> [] \<or> ipv6_addresses s \<noteq> [])"
    by (simp add: is_complete_def)
  have b: "init stn enc ty nm po we pr props srv ht ot addrs parsed ii = Inr s0 \<longrightarrow>
        text_bytes s0 \<noteq> None"
    using init_text [of stn enc ty nm po we pr props srv ht ot addrs parsed ii s0] by blast
  have c: "init stn enc ty nm po we pr props srv ht ot addrs parsed ii = Inr s0
        \<and> (addrs = None \<or> addrs = Some []) \<and> (parsed = None \<or> parsed = Some []) \<longrightarrow>
        \<not> is_complete s0"
    using init_no_addresses [of stn enc ty nm po we pr props srv ht ot addrs parsed ii s0]
    by (simp add: is_complete_def)
  have d: "text_bytes s \<noteq> None \<and> \<not> is_expired e now \<and> Some (entry_key e) = server_key s
        \<and> cached_ip_addresses a = Some ip \<longrightarrow>
        is_complete (fst (process_record_threadsafe zc (DNSAddress e a) now s))"
    using address_applied_complete [of s e now a ip zc] by blast
  from a b c d show ?thesis by blast
qed

text \<open>An instance of C8: the example state is what the constructor returns, it is
  not complete, and it is complete once 10.0.0.2 was applied.\<close>

theorem completeness_witness:
  "init (\<lambda>n. Inr ''_http._tcp.local.'') (\<lambda>a. Inl ValueError) ''_http._tcp.local.''
     ''Printer._http._tcp.local.'' None 0 0 (Inl []) (Some ''host-a.local.'') 120 4500
     None None None = Inr example_info
   \<and> \<not> is_complete example_info
   \<and> is_complete (fst (process_record_threadsafe empty_cache
        (DNSAddress (example_entry ''host-a.local.'' ''host-a.local.'' TYPE_A) (addr4 (CHR 0x02)))
        1000 example_info))"
proof -
  let ?e = "example_entry ''host-a.local.'' ''host-a.local.'' TYPE_A"
  have i: "init (\<lambda>n. Inr ''_http._tcp.local.'') (\<lambda>a. Inl ValueError) ''_http._tcp.local.''
     ''Printer._http._tcp.local.'' None 0 0 (Inl []) (Some ''host-a.local.'') 120 4500
     None None None = Inr example_info"
    by code_simp
  have h1: "text_bytes example_info \<noteq> None"
    by (simp add: example_info_def)
  have h2: "\<not> is_expired ?e 1000"
    by (simp add: example_entry_def is_expired_def)
  have h3: "Some (entry_key ?e) = server_key example_info"
    by (simp add: example_entry_def example_info_def)
  have h4: "cached_ip_addresses (addr4 (CHR 0x02)) = Some (IPv4Address (addr4 (CHR 0x02)))"
    by (simp add: cached_ip_addresses_def addr4_def)
  note c = completeness [of example_info "\<lambda>n. Inr ''_http._tcp.local.''" "\<lambda>a. Inl ValueError"
      "''_http._tcp.local.''" "''Printer._http._tcp.local.''" None 0 0 "Inl []"
      "Some ''host-a.local.''" 120 4500 None None None example_info ?e 1000
      "addr4 (CHR 0x02)" "IPv4Address (addr4 (CHR 0x02))" empty_cache]
  from c i h1 h2 h3 h4 show ?thesis by blast
qed

section \<open>Equality\<close>

text \<open>
  C10. \<open>a == b\<close> holds exactly when \<open>b\<close> is a \<open>ServiceInfo\<close> with the name of \<open>a\<close>.
  No other field is read: whatever the fields of \<open>b\<close> are, \<open>b\<close> with the name of \<open>a\<close>
  equals \<open>a\<close>, as do two states with one name and different port, server, text and
  addresses.
\<close>

theorem equality_is_by_name:
  "(eq_service_info a ob \<longleftrightarrow> (\<exists>b. ob = ServiceInfoObject b \<and> name b = name a))
   \<and> eq_service_info a (ServiceInfoObject (b\<lparr>name := name a\<rparr>))
   \<and> eq_service_info
        (example_info\<lparr>port := Some 80, server := None, server_key := None\<rparr>)
        (ServiceInfoObject
           (example_info\<lparr>text_bytes := Some ''a=1'', port := Some 631, weight := 5,
                          ipv4_addresses := [IPv4Address (addr4 (CHR 0x01))]\<rparr>))"
  by (cases ob) (auto simp: example_info_def)

section \<open>The Record Emitter\<close>

lemma discard_types_filter:
  "discard_types rs missing = filter (\<lambda>t. t \<notin> (\<lambda>r. entry_type (entry r)) ` set rs) missing"
proof (induction rs arbitrary: missing)
  case Nil
  then show ?case by simp
next
  case (Cons r rs)
  show ?case
    by (simp add: Cons.IH removeAll_filter_not_eq filter_filter) (metis)
qed

lemma dns_addresses_types:
  "(\<lambda>r. entry_type (entry r)) ` set (dns_addresses clock s override_ttl version created) =
     (\<lambda>ip. if is_IPv6Address ip then TYPE_AAAA else TYPE_A) `
       set (ip_addresses_by_version_value s version)"
  by (simp add: dns_addresses_def new_entry_def image_image)

lemma is_IPv4_not_IPv6: "is_IPv4Address ip = (\<not> is_IPv6Address ip)"
  by (cases ip) simp_all

lemma missing_types_empty:
  "discard_types (dns_addresses clock s override_ttl All created) [TYPE_A, TYPE_AAAA] = [] \<longleftrightarrow>
     list_ex is_IPv4Address (ipv4_addresses s @ ipv6_addresses s) \<and>
     list_ex is_IPv6Address (ipv4_addresses s @ ipv6_addresses s)"
  unfolding discard_types_filter dns_addresses_types
  by (auto simp: ip_addresses_by_version_value_def list_ex_iff is_IPv4_not_IPv6 image_iff
      split: if_splits)

lemma get_address_and_nsec_records_fails:
  "isl (get_address_and_nsec_records clock s override_ttl created) \<longleftrightarrow>
     server s = None \<and>
     \<not> (list_ex is_IPv4Address (ipv4_addresses s @ ipv6_addresses s) \<and>
        list_ex is_IPv6Address (ipv4_addresses s @ ipv6_addresses s))"
  unfolding missing_types_empty [of clock s override_ttl created, symmetric]
  by (simp add: get_address_and_nsec_records_def Let_def dns_nsec_def)

lemma well_typed_ledgers:
  assumes "list_all is_IPv4Address (ipv4_addresses s)" and "list_all is_IPv6Address (ipv6_addresses s)"
  shows "list_ex is_IPv4Address (ipv4_addresses s @ ipv6_addresses s) \<longleftrightarrow> ipv4_addresses s \<noteq> []"
    and "list_ex is_IPv6Address (ipv4_addresses s @ ipv6_addresses s) \<longleftrightarrow> ipv6_addresses s \<noteq> []"
  using assms
  by (cases "ipv4_addresses s"; cases "ipv6_addresses s";
      auto simp: list_ex_iff list_all_iff is_IPv4_not_IPv6)+

text \<open>
  C9, as the code has it. \<open>dns_nsec\<close> never fails: it builds the record from the
  instance name, whatever the server is. \<open>get_address_and_nsec_records\<close> fails exactly
  when the server is \<open>None\<close> and the ledgers lack an IPv4 or an IPv6 address, and then
  with the assertion error; with a server set it never fails. For ledgers that hold
  only addresses of their own family, "lack an address" is "one ledger is empty".
\<close>

theorem nsec_assertion:
  "dns_nsec clock s missing override_ttl created =
     Inr (DNSNsec
            (new_entry clock (name s) TYPE_NSEC CLASS_IN_UNIQUE (ttl_or override_ttl (host_ttl s)) created)
            (name s) missing)
   \<and> (isl (get_address_and_nsec_records clock s override_ttl created) \<longleftrightarrow>
        server s = None \<and>
        \<not> (list_ex is_IPv4Address (ipv4_addresses s @ ipv6_addresses s) \<and>
           list_ex is_IPv6Address (ipv4_addresses s @ ipv6_addresses s)))
   \<and> (isl (get_address_and_nsec_records clock s override_ttl created) \<longleftrightarrow>
        get_address_and_nsec_records clock s override_ttl created = Inl AssertionError)
   \<and> (list_all is_IPv4Address (ipv4_addresses s) \<and> list_all is_IPv6Address (ipv6_addresses s) \<longrightarrow>
        (isl (get_address_and_nsec_records clock s override_ttl created) \<longleftrightarrow>
           server s = None \<and> (ipv4_addresses s = [] \<or> ipv6_addresses s = [])))"
proof -
  have a: "dns_nsec clock s missing override_ttl created =
     Inr (DNSNsec
            (new_entry clock (name s) TYPE_NSEC CLASS_IN_UNIQUE (ttl_or override_ttl (host_ttl s)) created)
            (name s) missing)"
    by (simp add: dns_nsec_def)
  note b = get_address_and_nsec_records_fails [of clock s override_ttl created]
  have c: "isl (get_address_and_nsec_records clock s override_ttl created) \<longleftrightarrow>
        get_address_and_nsec_records clock s override_ttl created = Inl AssertionError"
    by (simp add: get_address_and_nsec_records_def Let_def dns_nsec_def)
  have d: "list_all is_IPv4Address (ipv4_addresses s) \<and> list_all is_IPv6Address (ipv6_addresses s) \<longrightarrow>
        (isl (get_address_and_nsec_records clock s override_ttl created) \<longleftrightarrow>
           server s = None \<and> (ipv4_addresses s = [] \<or> ipv6_addresses s = []))"
    unfolding b using well_typed_ledgers [of s] by blast
  from a b c d show ?thesis by blast
qed

text \<open>An instance of C9: without addresses, the answer set fails without a server
  and is built with one.\<close>

theorem nsec_assertion_witness:
  "isl (get_address_and_nsec_records 0 (example_info\<lparr>server := None\<rparr>) None None)
   \<and> \<not> isl (get_address_and_nsec_records 0 example_info None None)"
proof -
  have h: "list_all is_IPv4Address (ipv4_addresses example_info) \<and>
           list_all is_IPv6Address (ipv6_addresses example_info)"
    by (simp add: example_info_def)
  have h': "list_all is_IPv4Address (ipv4_addresses (example_info\<lparr>server := None\<rparr>)) \<and>
            list_all is_IPv6Address (ipv6_addresses (example_info\<lparr>server := None\<rparr>))"
    by (simp add: example_info_def)
  show ?thesis
    using nsec_assertion [of 0 "example_info\<lparr>server := None\<rparr>" "[]" None None]
      nsec_assertion [of 0 example_info "[]" None None] h h'
    by (simp add: example_info_def)
qed

text \<open>C9 as stated fails for the emitter itself: with no server set, \<open>dns_nsec\<close>
  returns a record.\<close>

theorem nsec_built_without_server:
  "server (example_info\<lparr>server := None\<rparr>) = None
   \<and> dns_nsec 0 (example_info\<lparr>server := None\<rparr>) [TYPE_A, TYPE_AAAA] None None =
       Inr (DNSNsec
              \<lparr>entry_name = ''Printer._http._tcp.local.'', entry_key = ''printer._http._tcp.local.'',
               entry_type = TYPE_NSEC, entry_class = CLASS_IN_UNIQUE, entry_ttl = 120,
               entry_created = 0\<rparr>
              ''Printer._http._tcp.local.'' [TYPE_A, TYPE_AAAA])"
  by code_simp

section \<open>The TXT codec\<close>

lemma join_items_wire:
  "list_all (\<lambda>i. length i \<le> 255) items \<Longrightarrow>
     join_items items acc = Inr (acc @ wire_text items)"
  by (induction items arbitrary: acc) (simp_all add: wire_text_def frame_def)

lemma unpack_loop_wire:
  "list_all (\<lambda>i. length i \<le> 255) items \<Longrightarrow>
     unpack_loop (pre @ wire_text items) (length pre) acc = acc @ items"
proof (induction items arbitrary: pre acc)
  case Nil
  show ?case
    by (subst unpack_loop.simps) (simp add: wire_text_def)
next
  case (Cons i items)
  from Cons.prems have len: "length i \<le> 255" and rest: "list_all (\<lambda>i. length i \<le> 255) items"
    by simp_all
  let ?text = "pre @ wire_text (i # items)"
  have t: "?text = (pre @ frame i) @ wire_text items"
    by (simp add: wire_text_def)
  have idx: "length pre < length ?text"
    by (simp add: wire_text_def frame_def)
  have byte: "(of_char (?text ! length pre) :: nat) = length i"
    using len by (simp add: wire_text_def frame_def)
  have slice: "take (length i) (drop (length pre + 1) ?text) = i"
    by (simp add: wire_text_def frame_def)
  have next_index: "length pre + 1 + length i = length (pre @ frame i)"
    by (simp add: frame_def)
  have "unpack_loop ?text (length pre) acc =
          unpack_loop ?text (length pre + 1 + length i) (acc @ [i])"
    by (subst unpack_loop.simps) (simp only: idx byte slice if_True)
  also have "\<dots> = unpack_loop ((pre @ frame i) @ wire_text items) (length (pre @ frame i)) (acc @ [i])"
    by (simp only: t next_index)
  also have "\<dots> = (acc @ [i]) @ items"
    using rest by (rule Cons.IH)
  finally show ?case by simp
qed

lemma unpack_wire: 
  "list_all (\<lambda>i. length i \<le> 255) items \<Longrightarrow> unpack_loop (wire_text items) 0 [] = items"
  using unpack_loop_wire [of items "[]" "[]"] by simp

lemma map_of_insert_pair:
  "map_of (insert_pair d p) = (map_of d)(fst (pair_entry p) \<mapsto> snd (pair_entry p))"
  by (simp add: insert_pair_def update_conv')

lemma map_of_foldl_insert_pair:
  "map_of (foldl insert_pair d ps) = map_of (rev (map pair_entry ps) @ d)"
proof (induction ps arbitrary: d)
  case Nil
  show ?case by simp
next
  case (Cons p ps)
  have "map_of (foldl insert_pair d (p # ps)) = map_of (rev (map pair_entry ps) @ insert_pair d p)"
    by (simp only: foldl_Cons Cons.IH)
  also have "\<dots> = map_of (insert_pair d p) ++ map_of (rev (map pair_entry ps))"
    by (simp only: map_of_append)
  also have "\<dots> = map_of (pair_entry p # d) ++ map_of (rev (map pair_entry ps))"
    by (simp add: map_of_insert_pair)
  also have "\<dots> = map_of (rev (map pair_entry (p # ps)) @ d)"
    by (simp only: map_of_append [symmetric] list.map rev.simps append_assoc append_Cons append_Nil)
  finally show ?case .
qed

lemma distinct_foldl_insert_pair:
  "distinct (map fst d) \<Longrightarrow> distinct (map fst (foldl insert_pair d ps))"
proof (induction ps arbitrary: d)
  case Nil
  then show ?case by simp
next
  case (Cons p ps)
  from Cons.prems have "distinct (map fst (insert_pair d p))"
    by (simp add: insert_pair_def distinct_update)
  then have "distinct (map fst (foldl insert_pair (insert_pair d p) ps))"
    by (rule Cons.IH)
  then show ?case by (simp only: foldl_Cons)
qed

lemma unpacked_map_of:
  "map_of (unpacked_properties (Some t)) = map_of (map pair_entry (unpack_loop t 0 []))"
proof (cases "t = []")
  case True
  then show ?thesis
    by (simp add: unpacked_properties_def unpack_loop.simps)
next
  case False
  then show ?thesis
    by (simp add: unpacked_properties_def map_of_foldl_insert_pair rev_map)
qed

lemma map_of_first_occurrence:
  "k \<notin> fst ` set pre \<Longrightarrow> map_of (pre @ (k, v) # post) k = Some v"
  by (induction pre) auto

lemma partition_eq_no_sep:
  "CHR ''='' \<notin> set k \<Longrightarrow> partition_eq k = (k, [], [])"
  by (simp add: partition_eq_def)

lemma partition_eq_sep:
  "CHR ''='' \<notin> set k \<Longrightarrow> partition_eq (k @ ''='' @ v) = (k, ''='', v)"
proof -
  assume k: "CHR ''='' \<notin> set k"
  then have "takeWhile (\<lambda>c. c \<noteq> CHR ''='') (k @ CHR ''='' # v) = k"
    by (induction k) auto
  moreover from k have "dropWhile (\<lambda>c. c \<noteq> CHR ''='') (k @ CHR ''='' # v) = CHR ''='' # v"
    by (induction k) auto
  ultimately show ?thesis
    by (simp add: partition_eq_def)
qed

lemma pair_entry_well_formed:
  "well_formed_entry e \<Longrightarrow> pair_entry (item_of e) = e"
  by (cases e rule: well_formed_entry.cases)
     (simp_all add: pair_entry_def partition_eq_no_sep partition_eq_sep [simplified])


lemma foldl_insert_pair_fresh:
  "distinct (map fst (d @ map pair_entry ps)) \<Longrightarrow>
     foldl insert_pair d ps = d @ map pair_entry ps"
proof (induction ps arbitrary: d)
  case Nil
  show ?case by simp
next
  case (Cons p ps)
  from Cons.prems have fresh: "fst (pair_entry p) \<notin> fst ` set d"
    by auto
  have step: "insert_pair d p = d @ [pair_entry p]"
    using fresh by (induction d) (auto simp: insert_pair_def)
  from Cons.prems have "distinct (map fst ((d @ [pair_entry p]) @ map pair_entry ps))"
    by simp
  then have "foldl insert_pair (d @ [pair_entry p]) ps = (d @ [pair_entry p]) @ map pair_entry ps"
    by (rule Cons.IH)
  then show ?case
    by (simp add: step)
qed

lemma wire_text_empty: "wire_text items = [] \<longleftrightarrow> items = []"
  by (cases items) (simp_all add: wire_text_def frame_def)

lemma map_pair_entry_items:
  "list_all well_formed_entry m \<Longrightarrow> map pair_entry (map item_of m) = m"
  by (induction m) (simp_all add: pair_entry_well_formed)

text \<open>
  C4. Decoding a text maps every key to the value of its first payload in wire order:
  the decoded dictionary, which has one entry per key, looks keys up as the list of
  parsed payloads does from its front, so a payload whose key no earlier payload has
  decides the value of that key. A text made of length-prefixed payloads of at most 255
  bytes parses into these payloads. A payload without \<open>=\<close> and a payload that ends
  with its only \<open>=\<close> both give the key with \<open>None\<close>. The empty text decodes to the
  empty dictionary, and the \<open>properties\<close> accessor of a state whose cache is cleared
  returns the decoded text.
\<close>

theorem first_occurrence_wins:
  "map_of (unpacked_properties (Some t)) = map_of (map pair_entry (unpack_loop t 0 []))
   \<and> distinct (map fst (unpacked_properties (Some t)))
   \<and> (unpack_loop t 0 [] = pre @ p # post \<and> fst (pair_entry p) \<notin> fst ` pair_entry ` set pre \<longrightarrow>
        map_of (unpacked_properties (Some t)) (fst (pair_entry p)) = Some (snd (pair_entry p)))
   \<and> (list_all (\<lambda>i. length i \<le> 255) items \<longrightarrow> unpack_loop (wire_text items) 0 [] = items)
   \<and> (CHR ''='' \<notin> set k \<longrightarrow>
        pair_entry k = (BytesKey k, NoneValue) \<and> pair_entry (k @ ''='') = (BytesKey k, NoneValue))
   \<and> unpacked_properties (Some []) = []
   \<and> (properties s = None \<longrightarrow> snd (properties_getter s) = unpacked_properties (text_bytes s))"
proof -
  have a: "map_of (unpacked_properties (Some t)) = map_of (map pair_entry (unpack_loop t 0 []))"
    by (rule unpacked_map_of)
  have b: "distinct (map fst (unpacked_properties (Some t)))"
    by (simp add: unpacked_properties_def distinct_foldl_insert_pair)
  have c: "unpack_loop t 0 [] = pre @ p # post \<and> fst (pair_entry p) \<notin> fst ` pair_entry ` set pre \<longrightarrow>
        map_of (unpacked_properties (Some t)) (fst (pair_entry p)) = Some (snd (pair_entry p))"
  proof
    assume h: "unpack_loop t 0 [] = pre @ p # post \<and> fst (pair_entry p) \<notin> fst ` pair_entry ` set pre"
    then have "fst (pair_entry p) \<notin> fst ` set (map pair_entry pre)"
      by simp
    then have "map_of (map pair_entry pre @ (fst (pair_entry p), snd (pair_entry p)) # map pair_entry post)
                 (fst (pair_entry p)) = Some (snd (pair_entry p))"
      by (rule map_of_first_occurrence)
    with h show "map_of (unpacked_properties (Some t)) (fst (pair_entry p)) = Some (snd (pair_entry p))"
      by (simp add: a)
  qed
  have d: "list_all (\<lambda>i. length i \<le> 255) items \<longrightarrow> unpack_loop (wire_text items) 0 [] = items"
    by (blast intro: unpack_wire)
  have e: "CHR ''='' \<notin> set k \<longrightarrow>
        pair_entry k = (BytesKey k, NoneValue) \<and> pair_entry (k @ ''='') = (BytesKey k, NoneValue)"
    using partition_eq_sep [of k "[]"]
    by (simp add: pair_entry_def partition_eq_no_sep)
  have f: "unpacked_properties (Some []) = []"
    by (simp add: unpacked_properties_def)
  have g: "properties s = None \<longrightarrow> snd (properties_getter s) = unpacked_properties (text_bytes s)"
    by (simp add: properties_getter_def)
  from a b c d e f g show ?thesis by blast
qed

text \<open>An instance of C4: in the text with the payloads \<open>a=1\<close>, \<open>a=2\<close>, \<open>b\<close> and
  \<open>c=\<close> the key \<open>a\<close> has the value \<open>1\<close> of its first payload.\<close>

theorem first_occurrence_wins_witness:
  "map_of (unpacked_properties (Some (CHR 0x03 # ''a=1'' @ CHR 0x03 # ''a=2'' @ CHR 0x01 # ''b'' @ CHR 0x02 # ''c='')))
     (BytesKey ''a'') = Some (BytesValue ''1'')
   \<and> unpack_loop (wire_text [''a=1'', ''a=2'', ''b'', ''c='']) 0 [] = [''a=1'', ''a=2'', ''b'', ''c='']
   \<and> pair_entry ''b'' = (BytesKey ''b'', NoneValue)
   \<and> pair_entry ''c='' = (BytesKey ''c'', NoneValue)
   \<and> snd (properties_getter (example_info\<lparr>text_bytes := Some []\<rparr>)) = []"
proof -
  let ?t = "CHR 0x03 # ''a=1'' @ CHR 0x03 # ''a=2'' @ CHR 0x01 # ''b'' @ CHR 0x02 # ''c=''"
  have h1: "unpack_loop ?t 0 [] = [] @ ''a=1'' # [''a=2'', ''b'', ''c='']"
    by code_simp
  have h2: "fst (pair_entry ''a=1'') \<notin> fst ` pair_entry ` set []"
    by simp
  have h3: "list_all (\<lambda>i. length i \<le> 255) [''a=1'', ''a=2'', ''b'', ''c='']"
    by simp
  have h4: "CHR ''='' \<notin> set ''b''" and h5: "CHR ''='' \<notin> set ''c''"
    by simp_all
  have h6: "properties (example_info\<lparr>text_bytes := Some []\<rparr>) = None"
    by (simp add: example_info_def)
  have e: "pair_entry ''a=1'' = (BytesKey ''a'', BytesValue ''1'')"
    by code_simp
  have f: "unpacked_properties (Some []) = []"
    by (simp add: unpacked_properties_def)
  note w1 = first_occurrence_wins [of ?t "[]" "''a=1''" "[''a=2'', ''b'', ''c='']"
      "[''a=1'', ''a=2'', ''b'', ''c='']" "''b''" "example_info\<lparr>text_bytes := Some []\<rparr>"]
  note w2 = first_occurrence_wins [of ?t "[]" "''a=1''" "[''a=2'', ''b'', ''c='']"
      "[''a=1'', ''a=2'', ''b'', ''c='']" "''c''" "example_info\<lparr>text_bytes := Some []\<rparr>"]
  from w1 h1 h2 have a: "map_of (unpacked_properties (Some ?t)) (fst (pair_entry ''a=1'')) =
      Some (snd (pair_entry ''a=1''))"
    by blast
  from w1 h3 have b: "unpack_loop (wire_text [''a=1'', ''a=2'', ''b'', ''c='']) 0 [] =
      [''a=1'', ''a=2'', ''b'', ''c='']"
    by blast
  from w1 h4 have c: "pair_entry ''b'' = (BytesKey ''b'', NoneValue)"
    by blast
  from w2 h5 have d: "pair_entry (''c'' @ ''='') = (BytesKey ''c'', NoneValue)"
    by blast
  from w1 h6 have g: "snd (properties_getter (example_info\<lparr>text_bytes := Some []\<rparr>)) =
      unpacked_properties (text_bytes (example_info\<lparr>text_bytes := Some []\<rparr>))"
    by blast
  from a b c d g show ?thesis
    by (simp add: e f)
qed

text \<open>
  C5. A dictionary of well-formed entries (one entry per key) whose payloads have at
  most 255 bytes is encoded without error, and decoding the text that
  \<open>_set_properties\<close> stored gives the entries of the dictionary in reverse order: the
  same key-to-value pairs.
\<close>

theorem decode_encode_roundtrip:
  assumes "distinct (map fst m)" and "list_all well_formed_entry m"
    and "list_all (\<lambda>e. length (item_of e) \<le> 255) m"
  shows "\<exists>s'. set_properties m s = Inr s' \<and> properties s' = Some m
           \<and> text_bytes s' = Some (wire_text (map item_of m))
           \<and> unpacked_properties (text_bytes s') = rev m
           \<and> set (snd (properties_getter (s'\<lparr>properties := None\<rparr>))) = set m
           \<and> map_of (snd (properties_getter (s'\<lparr>properties := None\<rparr>))) = map_of m"
proof -
  let ?items = "map item_of m"
  have small: "list_all (\<lambda>i. length i \<le> 255) ?items"
    using assms(3) by (simp add: list_all_iff)
  have enc: "set_properties m s = Inr (s\<lparr>properties := Some m, text_bytes := Some (wire_text ?items)\<rparr>)"
    by (simp add: set_properties_def join_items_wire [OF small])
  have dec: "unpacked_properties (Some (wire_text ?items)) = rev m"
  proof (cases "m = []")
    case True
    then show ?thesis
      by (simp add: unpacked_properties_def wire_text_def)
  next
    case False
    then have ne: "wire_text ?items \<noteq> []"
      by (simp add: wire_text_empty)
    have entries: "map pair_entry (rev ?items) = rev m"
      using map_pair_entry_items [OF assms(2)] by (simp add: rev_map [symmetric])
    have "distinct (map fst (rev m))"
      using assms(1) by (simp add: rev_map [symmetric])
    then have "distinct (map fst ([] @ map pair_entry (rev ?items)))"
      by (simp only: append_Nil entries)
    then have "foldl insert_pair [] (rev ?items) = [] @ map pair_entry (rev ?items)"
      by (rule foldl_insert_pair_fresh)
    then show ?thesis
      using ne by (simp add: unpacked_properties_def unpack_wire [OF small] entries)
  qed
  have mo: "map_of (rev m) = map_of m"
    using assms(1) by (subst map_of_inject_set) (simp_all add: rev_map [symmetric])
  show ?thesis
    by (rule exI [of _ "s\<lparr>properties := Some m, text_bytes := Some (wire_text ?items)\<rparr>"])
       (simp add: enc dec mo properties_getter_def unpack_text_into_properties_def)
qed

text \<open>An instance of C5: \<open>{a: 1, b: 2, c: None}\<close> is stored as the payloads
  \<open>a=1\<close>, \<open>b=2\<close> and \<open>c\<close> behind their length bytes and decoded again.\<close>

theorem decode_encode_roundtrip_witness:
  "\<exists>s'. set_properties
           [(BytesKey ''a'', BytesValue ''1''), (BytesKey ''b'', BytesValue ''2''), (BytesKey ''c'', NoneValue)]
           example_info = Inr s'
        \<and> text_bytes s' = Some (CHR 0x03 # ''a=1'' @ CHR 0x03 # ''b=2'' @ CHR 0x01 # ''c'')
        \<and> unpacked_properties (text_bytes s') =
            [(BytesKey ''c'', NoneValue), (BytesKey ''b'', BytesValue ''2''), (BytesKey ''a'', BytesValue ''1'')]"
proof -
  let ?m = "[(BytesKey ''a'', BytesValue ''1''), (BytesKey ''b'', BytesValue ''2''), (BytesKey ''c'', NoneValue)]"
  have h1: "distinct (map fst ?m)"
    by simp
  have h2: "list_all well_formed_entry ?m"
    by simp
  have h3: "list_all (\<lambda>e. length (item_of e) \<le> 255) ?m"
    by simp
  have w: "wire_text [''a=1'', ''b=2'', ''c''] = CHR 0x03 # ''a=1'' @ CHR 0x03 # ''b=2'' @ CHR 0x01 # ''c''"
    by code_simp
  from decode_encode_roundtrip [OF h1 h2 h3, of example_info]
  obtain s' where "set_properties ?m example_info = Inr s'"
    and "text_bytes s' = Some (wire_text (map item_of ?m))"
    and "unpacked_properties (text_bytes s') = rev ?m"
    by blast
  then show ?thesis
    by (intro exI [of _ s']) (simp add: w)
qed

section \<open>The Resolution Driver\<close>

text \<open>The question type of a query, by the caller's argument and the position of the
  query: only a forced QM is kept for every query.\<close>

lemma request_question_type_cases:
  "request_question_type None True = QU"
  "request_question_type None False = QM"
  "request_question_type (Some QM) f = QM"
  "request_question_type (Some QU) True = QU"
  "request_question_type (Some QU) False = QM"
  by (simp_all add: request_question_type_def)

text \<open>
  C2, evaluated on the code. The caller forces QU; the cache is empty and no reply
  arrives, so two queries are sent before the deadline. The first is generated with
  QU and its questions are unicast; the retransmission is generated with QM and its
  questions are not.
\<close>

theorem forced_unicast_not_kept:
  "request_question_type (Some QU) False = QM
   \<and> fst (async_request 200 empty_cache 0 3000 (Some QU) [quiet_wait 50 250, quiet_wait 20 3000]
           example_info) = Some False
   \<and> sent (snd (async_request 200 empty_cache 0 3000 (Some QU) [quiet_wait 50 250, quiet_wait 20 3000]
           example_info)) =
       [(QU, \<lparr>questions = example_questions True\<rparr>), (QM, \<lparr>questions = example_questions False\<rparr>)]"
  by code_simp

end
